theory Spec2Isabelle
  imports Complex_Main
begin

section \<open>Values of the JavaScript platform\<close>

text \<open>
  The pages are TypeScript running in a browser. The values that the code inspects at run
  time are untyped: the payload of a link token is whatever \<^verbatim>\<open>JSON.parse\<close> returned. A
  number is an IEEE double; every finite double is a rational, so finite numbers are
  rationals here, next to the two infinities and NaN (\<^verbatim>\<open>-0\<close> is identified with \<^verbatim>\<open>0\<close>: both
  are falsy and compare alike). Strings are lists of 8-bit characters.
\<close>

datatype jsnum = NaN | NegInf | Fin rat | PosInf

datatype jsval =
    JUndefined
  | JNull
  | JBool bool
  | JNum jsnum
  | JStr string
  | JArr "jsval list"
  | JObj "(string \<times> jsval) list"

text \<open>\<^verbatim>\<open>!v\<close> is \<open>\<not> truthy v\<close>.\<close>

fun truthy :: "jsval \<Rightarrow> bool" where
  "truthy JUndefined = False"
| "truthy JNull = False"
| "truthy (JBool b) = b"
| "truthy (JNum n) = (n \<noteq> NaN \<and> n \<noteq> Fin 0)"
| "truthy (JStr s) = (s \<noteq> [])"
| "truthy (JArr xs) = True"
| "truthy (JObj kvs) = True"

text \<open>
  Reading a property: \<^verbatim>\<open>v.k\<close> throws a TypeError on \<^verbatim>\<open>null\<close> and \<^verbatim>\<open>undefined\<close> (the
  result \<open>None\<close>), looks the key up in an object, and is \<^verbatim>\<open>undefined\<close> on the other
  values for the four names that the code reads (\<^verbatim>\<open>type\<close>, \<^verbatim>\<open>email\<close>, \<^verbatim>\<open>newEmail\<close>,
  \<^verbatim>\<open>exp\<close>: none of them is a property of a prototype).
\<close>

fun getprop :: "jsval \<Rightarrow> string \<Rightarrow> jsval option" where
  "getprop JUndefined k = None"
| "getprop JNull k = None"
| "getprop (JObj kvs) k = Some (case map_of kvs k of None \<Rightarrow> JUndefined | Some v \<Rightarrow> v)"
| "getprop v k = Some JUndefined"

text \<open>The comparison \<^verbatim>\<open><\<close> of two numbers: false as soon as one side is NaN.\<close>

fun num_lt :: "jsnum \<Rightarrow> jsnum \<Rightarrow> bool" where
  "num_lt NaN y = False"
| "num_lt x NaN = False"
| "num_lt PosInf y = False"
| "num_lt x NegInf = False"
| "num_lt NegInf y = True"
| "num_lt x PosInf = True"
| "num_lt (Fin a) (Fin b) = (a < b)"

text \<open>
  The built-ins that the Token Inspector calls are not code of the repository; they are
  parameters of the model. \<open>None\<close> is a thrown exception: \<^verbatim>\<open>atob\<close> throws on a string
  that is not base64, \<^verbatim>\<open>JSON.parse\<close> on a text that is not JSON, and the conversion of
  a string, an array or an object to a number (needed when such a value is compared with
  \<^verbatim>\<open><\<close>) can throw as well.
\<close>

record platform =
  atob :: "string \<Rightarrow> string option"
  JSON_parse :: "string \<Rightarrow> jsval option"
  ToNumber :: "jsval \<Rightarrow> jsnum option"

fun to_number :: "platform \<Rightarrow> jsval \<Rightarrow> jsnum option" where
  "to_number P JUndefined = Some NaN"
| "to_number P JNull = Some (Fin 0)"
| "to_number P (JBool b) = Some (Fin (if b then 1 else 0))"
| "to_number P (JNum n) = Some n"
| "to_number P v = ToNumber P v"

text \<open>\<^verbatim>\<open>v < n\<close> for a number \<open>n\<close> on the right.\<close>

definition js_lt :: "platform \<Rightarrow> jsval \<Rightarrow> jsnum \<Rightarrow> bool option" where
  "js_lt P v n = map_option (\<lambda>x. num_lt x n) (to_number P v)"

text \<open>\<^verbatim>\<open>s.split(sep)\<close> for a separator of one character.\<close>

fun split_str :: "char \<Rightarrow> string \<Rightarrow> string list" where
  "split_str sep [] = [[]]"
| "split_str sep (c # cs) =
     (if c = sep then [] # split_str sep cs
      else (case split_str sep cs of
              [] \<Rightarrow> [[c]]
            | seg # segs \<Rightarrow> (c # seg) # segs))"

section \<open>Token Inspector: \<^verbatim>\<open>validateToken\<close> of the email-change confirmation page\<close>

record validation =
  valid :: bool
  data :: "jsval option"
  error :: "string option"

text \<open>
  The test \<^verbatim>\<open>!payload.type || payload.type !== "emailChange" || !payload.email ||
  !payload.newEmail || !payload.exp\<close>, read from left to right. \<open>None\<close>: a property
  read threw.
\<close>

definition structure_invalid :: "jsval \<Rightarrow> bool option" where
  "structure_invalid payload =
     Option.bind (getprop payload ''type'') (\<lambda>ty.
       if \<not> truthy ty \<or> ty \<noteq> JStr ''emailChange'' then Some True
       else Option.bind (getprop payload ''email'') (\<lambda>em.
         if \<not> truthy em then Some True
         else Option.bind (getprop payload ''newEmail'') (\<lambda>ne.
           if \<not> truthy ne then Some True
           else Option.bind (getprop payload ''exp'') (\<lambda>ex. Some (\<not> truthy ex)))))"

text \<open>
  The body of the \<^verbatim>\<open>try\<close> block. \<open>date_now\<close> is the value of \<^verbatim>\<open>Date.now()\<close>, in
  milliseconds. \<open>None\<close>: an exception reached the \<^verbatim>\<open>catch\<close>.
\<close>

definition validateToken_try :: "platform \<Rightarrow> int \<Rightarrow> string \<Rightarrow> validation option" where
  "validateToken_try P date_now token =
     (if length (split_str CHR ''.'' token) \<noteq> 3
      then Some \<lparr>valid = False, data = None, error = Some ''Invalid token format''\<rparr>
      else
        (case atob P (split_str CHR ''.'' token ! 1) of
           None \<Rightarrow> None
         | Some decoded \<Rightarrow>
             (case JSON_parse P decoded of
                None \<Rightarrow> None
              | Some payload \<Rightarrow>
                  (case structure_invalid payload of
                     None \<Rightarrow> None
                   | Some True \<Rightarrow>
                       Some \<lparr>valid = False, data = None, error = Some ''Invalid token structure''\<rparr>
                   | Some False \<Rightarrow>
                       (let now = date_now div 1000 in
                        case Option.bind (getprop payload ''exp'')
                               (\<lambda>ex. js_lt P ex (Fin (of_int now))) of
                          None \<Rightarrow> None
                        | Some True \<Rightarrow>
                            Some \<lparr>valid = False, data = Some payload, error = Some ''Token expired''\<rparr>
                        | Some False \<Rightarrow>
                            Some \<lparr>valid = True, data = Some payload, error = None\<rparr>)))))"

definition validateToken :: "platform \<Rightarrow> int \<Rightarrow> string \<Rightarrow> validation" where
  "validateToken P date_now token =
     (case validateToken_try P date_now token of
        Some r \<Rightarrow> r
      | None \<Rightarrow> \<lparr>valid = False, data = None, error = Some ''Token validation failed''\<rparr>)"

text \<open>What the middle segment decodes to: \<^verbatim>\<open>JSON.parse(atob(token.split(".")[1]))\<close>.\<close>

definition decode_payload :: "platform \<Rightarrow> string \<Rightarrow> jsval option" where
  "decode_payload P token = Option.bind (atob P (split_str CHR ''.'' token ! 1)) (JSON_parse P)"

text \<open>A property read that yields \<^verbatim>\<open>undefined\<close> where the read would throw.\<close>

definition field :: "jsval \<Rightarrow> string \<Rightarrow> jsval" where
  "field v k = (case getprop v k of None \<Rightarrow> JUndefined | Some x \<Rightarrow> x)"

text \<open>The payload passes the structure test.\<close>

definition structure_ok :: "jsval \<Rightarrow> bool" where
  "structure_ok payload =
     (field payload ''type'' = JStr ''emailChange'' \<and> truthy (field payload ''email'')
      \<and> truthy (field payload ''newEmail'') \<and> truthy (field payload ''exp''))"

definition nullish :: "jsval \<Rightarrow> bool" where
  "nullish v = (v = JNull \<or> v = JUndefined)"

section \<open>The backend and the effects of an event handler\<close>

text \<open>
  Every handler of a page runs on the state that the component held when the event fired
  and leaves a new state; the busy flag of each page disables its buttons while a request
  is outstanding, so a handler is modelled as one step that runs to completion. The model
  of a handler returns the new state together with the calls it made, in order: requests
  to the backend and navigations. What the backend answers is a parameter: \<open>None\<close> (or
  \<open>Inr\<close>) is a resolved promise, \<open>Some e\<close> (or \<open>Inl e\<close>) a rejected one. The SDK rejects
  with a \<^verbatim>\<open>ClientResponseError\<close>, which carries a status, a message and the response
  body; \<open>err_password_message\<close> is the value of
  \<^verbatim>\<open>error.response?.data?.password?.message\<close> and \<open>err_token_message\<close> the value of
  \<^verbatim>\<open>error.response?.data?.token?.message\<close>: the backend reports the failed validation of
  a submitted field as a message under the name of the field. No handler reads the entry
  for the token. Any other thrown value is \<open>OtherError\<close> (it has no \<^verbatim>\<open>status\<close>).
  The fields of the records are the \<^verbatim>\<open>useState\<close> variables of the components and keep
  their names, behind one letter for the component: several components have a \<^verbatim>\<open>status\<close>,
  a \<^verbatim>\<open>message\<close> or an \<^verbatim>\<open>error\<close>.
\<close>

record response_error =
  err_status :: int
  err_message :: string
  err_password_message :: jsval
  err_token_message :: jsval

datatype thrown = ClientResponseError response_error | OtherError

datatype call =
    AuthWithPassword string string
  | RequestOTP string
  | AuthWithOTP string string
  | ConfirmEmailChange string string
  | ConfirmPasswordReset string string string
  | RequestVerification string
  | RouterPush string

record backend =
  authWithPassword :: "string \<Rightarrow> string \<Rightarrow> thrown option"
  requestOTP :: "string \<Rightarrow> thrown + string"
  authWithOTP :: "string \<Rightarrow> string \<Rightarrow> thrown option"
  confirmEmailChange :: "string \<Rightarrow> string \<Rightarrow> thrown option"
  confirmPasswordReset :: "string \<Rightarrow> string \<Rightarrow> string \<Rightarrow> thrown option"
  requestVerification :: "string \<Rightarrow> thrown option"


section \<open>The email-change confirmation page\<close>

datatype confirm_status = CLoading | CPassword | CSuccess | CError

datatype error_type = Invalid | Expired | Password | Other

record confirm_page =
  c_status :: confirm_status
  c_errorType :: "error_type option"
  c_message :: string
  c_isSubmitting :: bool
  c_tokenData :: "jsval option"
  c_passwordError :: "string option"

definition confirm_initial :: confirm_page where
  "confirm_initial =
     \<lparr>c_status = CLoading, c_errorType = None, c_message = [], c_isSubmitting = False,
      c_tokenData = None, c_passwordError = None\<rparr>"

definition token_missing :: "confirm_page \<Rightarrow> confirm_page" where
  "token_missing s =
     s\<lparr>c_status := CError, c_errorType := Some Invalid,
       c_message := ''Email change token is missing. Please check your email link.''\<rparr>"

text \<open>
  The effect that runs when the page is mounted. \<open>token\<close> is
  \<^verbatim>\<open>searchParams.get("token")\<close>; \<^verbatim>\<open>!token\<close> holds for \<^verbatim>\<open>null\<close> and for the empty string.
\<close>

definition checkTokenValidity :: "platform \<Rightarrow> int \<Rightarrow> string option \<Rightarrow> confirm_page \<Rightarrow> confirm_page" where
  "checkTokenValidity P date_now token s =
     (case token of
        None \<Rightarrow> token_missing s
      | Some t \<Rightarrow>
          if t = [] then token_missing s
          else
            (let validation = validateToken P date_now t in
             if \<not> valid validation then
               (if error validation = Some ''Token expired''
                   \<and> (case data validation of None \<Rightarrow> False | Some d \<Rightarrow> truthy d)
                then s\<lparr>c_status := CError, c_errorType := Some Expired,
                       c_tokenData := data validation,
                       c_message := ''Your email change link has expired. Please request a new email change.''\<rparr>
                else s\<lparr>c_status := CError, c_errorType := Some Invalid,
                       c_message := ''Invalid email change link. Please request a new email change.''\<rparr>)
             else s\<lparr>c_tokenData := data validation, c_status := CPassword\<rparr>))"






section \<open>The password-reset page\<close>

datatype reset_status = RIdle | RLoading | RSuccess | RError



text \<open>\<^verbatim>\<open>!token\<close> for the value of \<^verbatim>\<open>searchParams.get("token")\<close>.\<close>

definition falsy_str :: "string option \<Rightarrow> bool" where
  "falsy_str token = (case token of None \<Rightarrow> True | Some t \<Rightarrow> t = [])"




text \<open>
  What the page renders: the form unless the status is \<^verbatim>\<open>"success"\<close>, and its only submit
  button with \<^verbatim>\<open>disabled={isSubmitting || status === "error" || !token}\<close>. A form whose
  submit button is disabled cannot be submitted.
\<close>





section \<open>The login form and its one-time-code step\<close>

record login_form =
  l_error :: "string option"
  l_isLoading :: bool
  l_showOtpForm :: bool
  l_otpId :: "string option"
  l_userEmail :: string
  l_isLoadingOtp :: bool

definition login_initial :: login_form where
  "login_initial =
     \<lparr>l_error = None, l_isLoading = False, l_showOtpForm = False, l_otpId = None,
      l_userEmail = [], l_isLoadingOtp = False\<rparr>"

text \<open>
  \<^verbatim>\<open>onSubmit\<close> of the credentials form: the password check, then the request of a
  one-time code, whose id is held in \<^verbatim>\<open>otpId\<close>.
\<close>

definition login_catch :: "thrown \<Rightarrow> string" where
  "login_catch e =
     (case e of
        ClientResponseError r \<Rightarrow> ''Invalid username or password''
      | OtherError \<Rightarrow> ''An unexpected error occurred. Please try again.'')"

definition login_onSubmit :: "backend \<Rightarrow> string \<Rightarrow> string \<Rightarrow> login_form \<Rightarrow> login_form \<times> call list" where
  "login_onSubmit B email password s =
     (let s1 = s\<lparr>l_isLoading := True, l_error := None\<rparr> in
      case authWithPassword B email password of
        Some e \<Rightarrow>
          (s1\<lparr>l_error := Some (login_catch e), l_isLoading := False\<rparr>,
           [AuthWithPassword email password])
      | None \<Rightarrow>
          (let s2 = s1\<lparr>l_userEmail := email\<rparr> in
           case requestOTP B email of
             Inl e \<Rightarrow>
               (s2\<lparr>l_error := Some (login_catch e), l_isLoading := False\<rparr>,
                [AuthWithPassword email password, RequestOTP email])
           | Inr newId \<Rightarrow>
               (s2\<lparr>l_otpId := Some newId, l_showOtpForm := True, l_isLoading := False\<rparr>,
                [AuthWithPassword email password, RequestOTP email])))"

text \<open>\<^verbatim>\<open>onOtpSubmit\<close>: \<^verbatim>\<open>!otpId\<close> holds for \<^verbatim>\<open>null\<close> and for the empty string.\<close>

definition onOtpSubmit :: "backend \<Rightarrow> string \<Rightarrow> login_form \<Rightarrow> login_form \<times> call list" where
  "onOtpSubmit B otp s =
     (if falsy_str (l_otpId s)
      then (s\<lparr>l_error := Some ''Authentication error. Please try again.''\<rparr>, [])
      else
        (let s1 = s\<lparr>l_isLoadingOtp := True, l_error := None\<rparr>;
             held = (case l_otpId s of None \<Rightarrow> [] | Some i \<Rightarrow> i) in
         case authWithOTP B held otp of
           None \<Rightarrow>
             (s1\<lparr>l_isLoadingOtp := False\<rparr>, [AuthWithOTP held otp, RouterPush ''/dashboard''])
         | Some (ClientResponseError r) \<Rightarrow>
             (s1\<lparr>l_error := Some (err_message r), l_isLoadingOtp := False\<rparr>,
              [AuthWithOTP held otp])
         | Some OtherError \<Rightarrow>
             (s1\<lparr>l_error := Some ''An unexpected error occurred. Please try again.'',
                 l_isLoadingOtp := False\<rparr>,
              [AuthWithOTP held otp])))"

text \<open>
  \<^verbatim>\<open>handleResendOtp\<close>, in the two halves that the \<^verbatim>\<open>await\<close> separates: the state while
  the request is outstanding, and the state once it has resolved or rejected.
\<close>

definition handleResendOtp_pending :: "login_form \<Rightarrow> login_form" where
  "handleResendOtp_pending s = s\<lparr>l_isLoadingOtp := True, l_error := None\<rparr>"

definition handleResendOtp_settled :: "thrown + string \<Rightarrow> login_form \<Rightarrow> login_form" where
  "handleResendOtp_settled answer s1 =
     (case answer of
        Inr newId \<Rightarrow> s1\<lparr>l_otpId := Some newId, l_error := None, l_isLoadingOtp := False\<rparr>
      | Inl (ClientResponseError r) \<Rightarrow>
          s1\<lparr>l_error := Some (err_message r), l_isLoadingOtp := False\<rparr>
      | Inl OtherError \<Rightarrow>
          s1\<lparr>l_error := Some ''Failed to resend verification code. Please try again.'',
             l_isLoadingOtp := False\<rparr>)"

definition handleResendOtp :: "backend \<Rightarrow> login_form \<Rightarrow> login_form \<times> call list" where
  "handleResendOtp B s =
     (if l_userEmail s = [] then (s, [])
      else (handleResendOtp_settled (requestOTP B (l_userEmail s)) (handleResendOtp_pending s),
            [RequestOTP (l_userEmail s)]))"

definition handleBackToLogin :: "login_form \<Rightarrow> login_form" where
  "handleBackToLogin s = s\<lparr>l_showOtpForm := False, l_otpId := None, l_error := None\<rparr>"

text \<open>
  The states of the Challenge-Response Controller, read off the form: a challenge is
  issued when the one-time-code form is shown and a challenge id is held.
\<close>

definition challenge_issued :: "login_form \<Rightarrow> bool" where
  "challenge_issued s = (l_showOtpForm s \<and> \<not> falsy_str (l_otpId s))"

section \<open>The verify-email page and its resend cooldown\<close>

text \<open>
  \<^verbatim>\<open>Date.now().toString()\<close> and \<^verbatim>\<open>Number.parseInt\<close>, on integers: timestamps are whole
  milliseconds far below 2 to the power 53, where the arithmetic of doubles is exact, and they are
  written in decimal. \<open>parseInt\<close> skips leading white space, reads a sign, takes the prefix
  \<^verbatim>\<open>0x\<close> for base 16, and reads the longest run of digits; \<open>None\<close> is NaN.
\<close>

definition digit_char :: "nat \<Rightarrow> char" where
  "digit_char d = ''0123456789'' ! d"

fun digits :: "nat \<Rightarrow> string" where
  "digits n = (if n < 10 then [digit_char n] else digits (n div 10) @ [digit_char (n mod 10)])"

declare digits.simps [simp del]

definition toString :: "int \<Rightarrow> string" where
  "toString i = (if i < 0 then CHR ''-'' # digits (nat (- i)) else digits (nat i))"

definition digit_of :: "char \<Rightarrow> nat option" where
  "digit_of c =
     map_of (zip ''0123456789abcdefABCDEF''
                 [0, 1, 2, 3, 4, 5, 6, 7, 8, 9, 10, 11, 12, 13, 14, 15, 10, 11, 12, 13, 14, 15]) c"

definition is_digit :: "nat \<Rightarrow> char \<Rightarrow> bool" where
  "is_digit radix c = (case digit_of c of None \<Rightarrow> False | Some d \<Rightarrow> d < radix)"

definition digit_val :: "char \<Rightarrow> int" where
  "digit_val c = (case digit_of c of None \<Rightarrow> 0 | Some d \<Rightarrow> int d)"

definition is_space :: "char \<Rightarrow> bool" where
  "is_space c = (c \<in> set [CHR 0x09, CHR 0x0A, CHR 0x0B, CHR 0x0C, CHR 0x0D, CHR 0x20, CHR 0xA0])"

definition parseInt :: "string \<Rightarrow> int option" where
  "parseInt str =
     (let S = dropWhile is_space str;
          sign = (if take 1 S = ''-'' then - 1 else 1);
          S1 = (if take 1 S = ''-'' \<or> take 1 S = ''+'' then drop 1 S else S);
          hex = (take 2 S1 = ''0x'' \<or> take 2 S1 = ''0X'');
          R = (if hex then 16 else 10);
          S2 = (if hex then drop 2 S1 else S1);
          Z = takeWhile (is_digit R) S2
      in if Z = [] then None
         else Some (sign * foldl (\<lambda>a c. a * int R + digit_val c) 0 Z))"

text \<open>
  The page. \<open>localStorage\<close> is a map from keys to strings; the state of the component
  starts afresh each time the page is loaded, the storage persists.
\<close>

type_synonym storage = "string \<rightharpoonup> string"

record status_line =
  success :: bool
  message :: string

record verify_page =
  v_isResending :: bool
  v_isRefreshing :: bool
  v_resendStatus :: "status_line option"
  v_refreshStatus :: "status_line option"
  v_countdown :: int
  v_initialEmailSent :: bool

definition RESEND_COOLDOWN :: int where
  "RESEND_COOLDOWN = 30"

definition verify_initial :: verify_page where
  "verify_initial =
     \<lparr>v_isResending = False, v_isRefreshing = False, v_resendStatus = None,
      v_refreshStatus = None, v_countdown = 0, v_initialEmailSent = False\<rparr>"

text \<open>
  The effect that runs when the page is mounted, at the time \<open>date_now\<close> (milliseconds).
  An empty stored string is falsy; a stored string that is no number makes every later
  value NaN, and \<^verbatim>\<open>NaN > 0\<close> is false.
\<close>

definition verify_mount :: "int \<Rightarrow> storage \<Rightarrow> verify_page \<Rightarrow> verify_page" where
  "verify_mount date_now localStorage s =
     (case localStorage ''lastVerificationEmailSent'' of
        None \<Rightarrow> s\<lparr>v_initialEmailSent := False\<rparr>
      | Some lastSentTime \<Rightarrow>
          if lastSentTime = [] then s\<lparr>v_initialEmailSent := False\<rparr>
          else
            (let s1 = s\<lparr>v_initialEmailSent := True\<rparr> in
             case parseInt lastSentTime of
               None \<Rightarrow> s1
             | Some lastSent \<Rightarrow>
                 (let elapsedSeconds = (date_now - lastSent) div 1000;
                      remainingSeconds = RESEND_COOLDOWN - elapsedSeconds
                  in if remainingSeconds > 0 then s1\<lparr>v_countdown := remainingSeconds\<rparr> else s1)))"

text \<open>One firing of the one-second timer, which is armed only while the countdown is positive.\<close>

definition tick :: "verify_page \<Rightarrow> verify_page" where
  "tick s =
     (if v_countdown s \<le> 0 then s
      else s\<lparr>v_countdown := (if v_countdown s \<le> 1 then 0 else v_countdown s - 1)\<rparr>)"

text \<open>
  \<^verbatim>\<open>resendVerification\<close> of the authentication context (\<open>user\<close> is the email of the
  logged-in user, if any), and \<^verbatim>\<open>handleResendVerification\<close> of the page, which records the
  time of the send in the storage and starts the countdown.
\<close>

definition resendVerification :: "backend \<Rightarrow> string option \<Rightarrow> thrown option \<times> call list" where
  "resendVerification B user =
     (case user of
        Some email \<Rightarrow> (requestVerification B email, [RequestVerification email])
      | None \<Rightarrow> (Some OtherError, []))"

definition handleResendVerification ::
    "backend \<Rightarrow> string option \<Rightarrow> int \<Rightarrow> verify_page \<times> storage \<Rightarrow> (verify_page \<times> storage) \<times> call list" where
  "handleResendVerification B user date_now st =
     (let s1 = (fst st)\<lparr>v_isResending := True, v_resendStatus := None, v_refreshStatus := None\<rparr>
      in case fst (resendVerification B user) of
           None \<Rightarrow>
             ((s1\<lparr>v_resendStatus :=
                     Some \<lparr>success = True,
                           message = ''Verification email sent successfully. Please check your inbox.''\<rparr>,
                   v_initialEmailSent := True, v_countdown := RESEND_COOLDOWN,
                   v_isResending := False\<rparr>,
               (snd st)(''lastVerificationEmailSent'' \<mapsto> toString date_now)),
              snd (resendVerification B user))
         | Some e \<Rightarrow>
             ((s1\<lparr>v_resendStatus :=
                     Some \<lparr>success = False,
                           message = ''Failed to send verification email. Please try again later.''\<rparr>,
                   v_isResending := False\<rparr>,
               snd st),
              snd (resendVerification B user)))"

text \<open>
  The effect \<^verbatim>\<open>sendInitialVerificationEmail\<close> of the page: when no send is recorded yet, a
  user is logged in and the authentication context has finished loading, it sends the
  email by itself and records the time in the storage. A failure is only logged. Unlike
  \<^verbatim>\<open>handleResendVerification\<close> it does not write the countdown.
\<close>

definition sendInitialVerificationEmail ::
    "backend \<Rightarrow> string option \<Rightarrow> bool \<Rightarrow> int \<Rightarrow> verify_page \<times> storage \<Rightarrow> (verify_page \<times> storage) \<times> call list" where
  "sendInitialVerificationEmail B user isLoading date_now st =
     (if \<not> v_initialEmailSent (fst st) \<and> user \<noteq> None \<and> \<not> isLoading
      then
        (case fst (resendVerification B user) of
           None \<Rightarrow>
             (((fst st)\<lparr>v_initialEmailSent := True\<rparr>,
               (snd st)(''lastVerificationEmailSent'' \<mapsto> toString date_now)),
              snd (resendVerification B user))
         | Some e \<Rightarrow> (st, snd (resendVerification B user)))
      else (st, []))"

text \<open>The resend button: \<^verbatim>\<open>disabled={isResending || isRefreshing || countdown > 0}\<close>.\<close>

definition resend_disabled :: "verify_page \<Rightarrow> bool" where
  "resend_disabled s = (v_isResending s \<or> v_isRefreshing s \<or> v_countdown s > 0)"

text \<open>The message that the \<^verbatim>\<open>catch\<close> block of \<^verbatim>\<open>onOtpSubmit\<close> shows.\<close>

definition otp_catch :: "thrown \<Rightarrow> string" where
  "otp_catch e =
     (case e of
        ClientResponseError r \<Rightarrow> err_message r
      | OtherError \<Rightarrow> ''An unexpected error occurred. Please try again.'')"

text \<open>A character that \<open>digits\<close> can produce.\<close>

definition dec :: "char \<Rightarrow> bool" where
  "dec c = (\<exists>d<10. c = digit_char d)"

section \<open>Sample inputs\<close>

text \<open>
  Concrete values on which the theorems below are instantiated. \<open>browser\<close> tabulates what
  the real \<^verbatim>\<open>atob\<close> and \<^verbatim>\<open>JSON.parse\<close> return on four middle segments (and throws
  elsewhere): the base64 of a complete email-change payload that expires at second
  1700000000, of a payload without \<^verbatim>\<open>newEmail\<close> that expired at second 1, of the JSON
  text \<^verbatim>\<open>null\<close>, and of a text that is not JSON. None of these payloads has an \<^verbatim>\<open>exp\<close>
  that needs a conversion to a number, so \<open>ToNumber\<close> is never reached on them.
\<close>

definition sample_payload :: jsval where
  "sample_payload =
     JObj [(''type'', JStr ''emailChange''), (''email'', JStr ''old@example.com''),
           (''newEmail'', JStr ''new@example.com''), (''exp'', JNum (Fin 1700000000))]"

definition sample_payload_short :: jsval where
  "sample_payload_short =
     JObj [(''type'', JStr ''emailChange''), (''email'', JStr ''old@example.com''),
           (''exp'', JNum (Fin 1))]"

definition browser :: platform where
  \<open>browser =
     \<lparr>atob = map_of
        [(''eyJ0eXBlIjoiZW1haWxDaGFuZ2UiLCJlbWFpbCI6Im9sZEBleGFtcGxlLmNvbSIsIm5ld0VtYWlsIjoibmV3QGV4YW1wbGUuY29tIiwiZXhwIjoxNzAwMDAwMDAwfQ=='',
          ''{"type":"emailChange","email":"old@example.com","newEmail":"new@example.com","exp":1700000000}''),
         (''eyJ0eXBlIjoiZW1haWxDaGFuZ2UiLCJlbWFpbCI6Im9sZEBleGFtcGxlLmNvbSIsImV4cCI6MX0='',
          ''{"type":"emailChange","email":"old@example.com","exp":1}''),
         (''bnVsbA=='', ''null''),
         (''bm90IGpzb24='', ''not json'')],
      JSON_parse = map_of
        [(''{"type":"emailChange","email":"old@example.com","newEmail":"new@example.com","exp":1700000000}'',
          sample_payload),
         (''{"type":"emailChange","email":"old@example.com","exp":1}'', sample_payload_short),
         (''null'', JNull)],
      ToNumber = (\<lambda>v. Some NaN)\<rparr>\<close>

definition sample_token :: string where
  "sample_token = ''h.eyJ0eXBlIjoiZW1haWxDaGFuZ2UiLCJlbWFpbCI6Im9sZEBleGFtcGxlLmNvbSIsIm5ld0VtYWlsIjoibmV3QGV4YW1wbGUuY29tIiwiZXhwIjoxNzAwMDAwMDAwfQ==.s''"

definition short_token :: string where
  "short_token = ''h.eyJ0eXBlIjoiZW1haWxDaGFuZ2UiLCJlbWFpbCI6Im9sZEBleGFtcGxlLmNvbSIsImV4cCI6MX0=.s''"

definition rate_limited :: thrown where
  "rate_limited =
     ClientResponseError \<lparr>err_status = 429, err_message = ''Too many requests.'',
                          err_password_message = JUndefined, err_token_message = JUndefined\<rparr>"

definition invalid_code :: thrown where
  "invalid_code =
     ClientResponseError \<lparr>err_status = 400, err_message = ''Failed to authenticate.'',
                          err_password_message = JUndefined, err_token_message = JUndefined\<rparr>"

definition wrong_password :: thrown where
  "wrong_password =
     ClientResponseError
       \<lparr>err_status = 400, err_message = ''An error occurred while validating the submitted data.'',
        err_password_message = JStr ''Missing or invalid auth record password.'',
        err_token_message = JUndefined\<rparr>"

definition bad_token :: thrown where
  "bad_token =
     ClientResponseError
       \<lparr>err_status = 400, err_message = ''Invalid or expired token.'',
        err_password_message = JUndefined, err_token_message = JStr ''Invalid or expired token.''\<rparr>"



definition server_error :: thrown where
  "server_error =
     ClientResponseError
       \<lparr>err_status = 500, err_message = ''Something went wrong while processing your request.'',
        err_password_message = JUndefined, err_token_message = JUndefined\<rparr>"

text \<open>
  A backend that refuses to issue a new code, accepts the code 123456 for the challenge
  \<^verbatim>\<open>otp_1\<close>, answers an email-change confirmation with a password failure (or, for the
  password \<^verbatim>\<open>correctpw\<close>, with a token failure), and fails on every password reset.
\<close>

definition sample_backend :: backend where
  "sample_backend =
     \<lparr>authWithPassword = (\<lambda>email password. None),
      requestOTP = (\<lambda>email. Inl rate_limited),
      authWithOTP = (\<lambda>otpId otp.
        if otpId = ''otp_1'' \<and> otp = ''123456'' then None else Some invalid_code),
      confirmEmailChange = (\<lambda>token password.
        if password = ''correctpw'' then Some bad_token else Some wrong_password),
      confirmPasswordReset = (\<lambda>token password passwordConfirm. Some server_error),
      requestVerification = (\<lambda>email. None)\<rparr>"

definition issued :: login_form where
  "issued =
     \<lparr>l_error = None, l_isLoading = False, l_showOtpForm = True, l_otpId = Some ''otp_1'',
      l_userEmail = ''user@example.com'', l_isLoadingOtp = False\<rparr>"


text \<open>
  The verify-email page after its automatic first send at the time 1700000000000
  (milliseconds): it was mounted on an empty storage, a user is logged in and the context
  has finished loading.
\<close>

definition after_auto_send :: "verify_page \<times> storage" where
  "after_auto_send =
     fst (sendInitialVerificationEmail sample_backend (Some ''user@example.com'') False
            1700000000000 (verify_mount 1700000000000 Map.empty verify_initial, Map.empty))"

section \<open>Token Inspector: what \<^verbatim>\<open>validateToken\<close> returns\<close>

text \<open>The number of segments is one more than the number of separators.\<close>

lemma length_split_str: "length (split_str sep s) = Suc (length (filter (\<lambda>c. c = sep) s))"
  by (induction s) (auto split: list.splits)

text \<open>The structure test throws exactly on \<^verbatim>\<open>null\<close> and \<^verbatim>\<open>undefined\<close>.\<close>

lemma structure_invalid_eq:
  "structure_invalid p = (if nullish p then None else Some (\<not> structure_ok p))"
  by (cases p) (auto simp: structure_invalid_def nullish_def structure_ok_def field_def)

text \<open>The three ways through the function.\<close>

lemma validateToken_short:
  assumes "length (split_str CHR ''.'' token) \<noteq> 3"
  shows "validateToken P date_now token =
           \<lparr>valid = False, data = None, error = Some ''Invalid token format''\<rparr>"
  using assms by (simp add: validateToken_def validateToken_try_def)

lemma validateToken_undecodable:
  assumes "length (split_str CHR ''.'' token) = 3" and "decode_payload P token = None"
  shows "validateToken P date_now token =
           \<lparr>valid = False, data = None, error = Some ''Token validation failed''\<rparr>"
  using assms
  by (auto simp: validateToken_def validateToken_try_def decode_payload_def
           split: option.splits bind_splits)

lemma validateToken_decoded:
  assumes "length (split_str CHR ''.'' token) = 3" and "decode_payload P token = Some payload"
  shows "validateToken P date_now token =
           (if nullish payload
            then \<lparr>valid = False, data = None, error = Some ''Token validation failed''\<rparr>
            else if \<not> structure_ok payload
            then \<lparr>valid = False, data = None, error = Some ''Invalid token structure''\<rparr>
            else (case js_lt P (field payload ''exp'') (Fin (of_int (date_now div 1000))) of
                    None \<Rightarrow> \<lparr>valid = False, data = None, error = Some ''Token validation failed''\<rparr>
                  | Some True \<Rightarrow> \<lparr>valid = False, data = Some payload, error = Some ''Token expired''\<rparr>
                  | Some False \<Rightarrow> \<lparr>valid = True, data = Some payload, error = None\<rparr>))"
proof -
  from assms(2) obtain decoded where d: "atob P (split_str CHR ''.'' token ! 1) = Some decoded"
    and p: "JSON_parse P decoded = Some payload"
    by (auto simp: decode_payload_def bind_eq_Some_conv)
  have g: "\<not> nullish payload \<Longrightarrow> getprop payload ''exp'' = Some (field payload ''exp'')"
    by (cases payload) (auto simp: nullish_def field_def)
  show ?thesis
    using assms(1) d p g
    by (auto simp: validateToken_def validateToken_try_def structure_invalid_eq
             split: option.splits bool.splits)
qed

text \<open>The sample tokens, split and decoded.\<close>

lemma sample_token_decoded:
  "length (split_str CHR ''.'' sample_token) = 3"
  "decode_payload browser sample_token = Some sample_payload"
  by (simp_all add: sample_token_def decode_payload_def browser_def)

lemma short_token_decoded:
  "length (split_str CHR ''.'' short_token) = 3"
  "decode_payload browser short_token = Some sample_payload_short"
  by (simp_all add: short_token_def decode_payload_def browser_def)

lemma null_token_decoded:
  "length (split_str CHR ''.'' ''h.bnVsbA==.s'') = 3"
  "decode_payload browser ''h.bnVsbA==.s'' = Some JNull"
  by (simp_all add: decode_payload_def browser_def)

lemma junk_token_decoded:
  "length (split_str CHR ''.'' ''h.bm90IGpzb24=.s'') = 3"
  "decode_payload browser ''h.bm90IGpzb24=.s'' = None"
  by (simp_all add: decode_payload_def browser_def)

lemma sample_payload_ok:
  "structure_ok sample_payload"
  "field sample_payload ''exp'' = JNum (Fin 1700000000)"
  "\<not> nullish sample_payload"
  by (simp_all add: structure_ok_def field_def sample_payload_def nullish_def)

lemma sample_payload_short_bad:
  "\<not> structure_ok sample_payload_short"
  "field sample_payload_short ''newEmail'' = JUndefined"
  "field sample_payload_short ''exp'' = JNum (Fin 1)"
  "\<not> nullish sample_payload_short"
  by (simp_all add: structure_ok_def field_def sample_payload_short_def nullish_def)

text \<open>
  Claim C8. A token that does not split into exactly three segments at the dots, or whose
  middle segment does not decode (\<^verbatim>\<open>atob\<close> or \<^verbatim>\<open>JSON.parse\<close> throws), is rejected
  without decoded claims: with the error \<^verbatim>\<open>Invalid token format\<close> in the first case and
  \<^verbatim>\<open>Token validation failed\<close> in the second. The page shows both as an invalid link and
  stores no token data.
\<close>

theorem validateToken_malformed:
  assumes "length (split_str CHR ''.'' token) \<noteq> 3 \<or> decode_payload P token = None"
  shows "validateToken P date_now token =
           \<lparr>valid = False, data = None,
            error = Some (if length (split_str CHR ''.'' token) \<noteq> 3
                          then ''Invalid token format'' else ''Token validation failed'')\<rparr>
         \<and> c_status (checkTokenValidity P date_now (Some token) s) = CError
         \<and> c_errorType (checkTokenValidity P date_now (Some token) s) = Some Invalid
         \<and> c_tokenData (checkTokenValidity P date_now (Some token) s) = c_tokenData s"
proof -
  have r: "validateToken P date_now token =
           \<lparr>valid = False, data = None,
            error = Some (if length (split_str CHR ''.'' token) \<noteq> 3
                          then ''Invalid token format'' else ''Token validation failed'')\<rparr>"
  proof (cases "length (split_str CHR ''.'' token) = 3")
    case True
    with assms have "decode_payload P token = None" by simp
    with True show ?thesis by (simp add: validateToken_undecodable)
  next
    case False
    then show ?thesis by (simp add: validateToken_short)
  qed
  show ?thesis
    by (simp add: r checkTokenValidity_def token_missing_def)
qed

theorem validateToken_malformed_witness:
  "length (split_str CHR ''.'' ''a.b'') \<noteq> 3
   \<and> validateToken browser 1700000000000 ''a.b'' =
       \<lparr>valid = False, data = None, error = Some ''Invalid token format''\<rparr>
   \<and> length (split_str CHR ''.'' ''h.bm90IGpzb24=.s'') = 3
   \<and> decode_payload browser ''h.bm90IGpzb24=.s'' = None
   \<and> validateToken browser 1700000000000 ''h.bm90IGpzb24=.s'' =
       \<lparr>valid = False, data = None, error = Some ''Token validation failed''\<rparr>
   \<and> c_errorType (checkTokenValidity browser 1700000000000 (Some ''h.bm90IGpzb24=.s'') confirm_initial)
       = Some Invalid"
proof -
  have a: "length (split_str CHR ''.'' ''a.b'') \<noteq> 3" by simp
  show ?thesis
    using validateToken_malformed [of "''a.b''" browser 1700000000000 confirm_initial]
          validateToken_malformed [of "''h.bm90IGpzb24=.s''" browser 1700000000000 confirm_initial]
          a junk_token_decoded
    by simp
qed

text \<open>
  Claim C9. On every input string, for every behaviour of the built-ins and at every time,
  \<^verbatim>\<open>validateToken\<close> returns one of five results: one of the three failures without
  claims (format, structure, validation failed), the failure \<^verbatim>\<open>Token expired\<close> with the
  decoded payload, or success with the decoded payload. Every exception of the body ends in
  the \<^verbatim>\<open>catch\<close>; the function reads neither the backend nor the storage (it has no such
  argument and returns no call).
\<close>

theorem validateToken_total:
  "validateToken P date_now token \<in>
     {\<lparr>valid = False, data = None, error = Some ''Invalid token format''\<rparr>,
      \<lparr>valid = False, data = None, error = Some ''Invalid token structure''\<rparr>,
      \<lparr>valid = False, data = None, error = Some ''Token validation failed''\<rparr>}
   \<or> (\<exists>payload. decode_payload P token = Some payload
         \<and> validateToken P date_now token \<in>
             {\<lparr>valid = False, data = Some payload, error = Some ''Token expired''\<rparr>,
              \<lparr>valid = True, data = Some payload, error = None\<rparr>})"
proof (cases "length (split_str CHR ''.'' token) = 3")
  case False
  then show ?thesis by (simp add: validateToken_short)
next
  case True
  show ?thesis
  proof (cases "decode_payload P token")
    case None
    with True show ?thesis by (simp add: validateToken_undecodable)
  next
    case (Some payload)
    with True show ?thesis
      by (simp add: validateToken_decoded split: option.splits bool.splits)
  qed
qed

theorem validateToken_total_witness:
  "validateToken browser 1700000000000 ''not a token'' \<in>
     {\<lparr>valid = False, data = None, error = Some ''Invalid token format''\<rparr>,
      \<lparr>valid = False, data = None, error = Some ''Invalid token structure''\<rparr>,
      \<lparr>valid = False, data = None, error = Some ''Token validation failed''\<rparr>}
   \<or> (\<exists>payload. decode_payload browser ''not a token'' = Some payload
         \<and> validateToken browser 1700000000000 ''not a token'' \<in>
             {\<lparr>valid = False, data = Some payload, error = Some ''Token expired''\<rparr>,
              \<lparr>valid = True, data = Some payload, error = None\<rparr>})"
  using validateToken_total [of browser 1700000000000 "''not a token''"] .

text \<open>
  Claim C2, as amended. A token with three segments whose payload passes the structure test
  and whose \<^verbatim>\<open>exp\<close> is a finite number is rejected as expired, together with the decoded
  payload, exactly when \<^verbatim>\<open>exp\<close> is strictly below the current time in whole seconds; when
  \<^verbatim>\<open>exp\<close> equals the current second (or is later) the token is valid.
\<close>

theorem validateToken_expiry:
  assumes "length (split_str CHR ''.'' token) = 3"
      and "decode_payload P token = Some payload"
      and "structure_ok payload"
      and "field payload ''exp'' = JNum (Fin expiresAt)"
  shows "validateToken P date_now token =
           (if expiresAt < of_int (date_now div 1000)
            then \<lparr>valid = False, data = Some payload, error = Some ''Token expired''\<rparr>
            else \<lparr>valid = True, data = Some payload, error = None\<rparr>)"
proof -
  have "\<not> nullish payload"
    using assms(3) by (auto simp: nullish_def structure_ok_def field_def)
  then show ?thesis
    using assms by (simp add: validateToken_decoded js_lt_def)
qed

theorem validateToken_expiry_witness:
  "length (split_str CHR ''.'' sample_token) = 3
   \<and> decode_payload browser sample_token = Some sample_payload
   \<and> structure_ok sample_payload
   \<and> field sample_payload ''exp'' = JNum (Fin 1700000000)
   \<and> validateToken browser 1700000001000 sample_token =
       \<lparr>valid = False, data = Some sample_payload, error = Some ''Token expired''\<rparr>
   \<and> validateToken browser 1700000000999 sample_token =
       \<lparr>valid = True, data = Some sample_payload, error = None\<rparr>"
  using validateToken_expiry [OF sample_token_decoded sample_payload_ok(1,2), of 1700000001000]
        validateToken_expiry [OF sample_token_decoded sample_payload_ok(1,2), of 1700000000999]
        sample_token_decoded sample_payload_ok
  by simp

text \<open>
  The claim as the specification states it (expired as soon as \<^verbatim>\<open>exp\<close> is at most the
  current time) fails at the boundary: the sample token expires at second 1700000000, the
  clock shows 1700000000000 milliseconds, and the token is accepted.
\<close>

theorem validateToken_boundary_counterexample:
  "length (split_str CHR ''.'' sample_token) = 3
   \<and> decode_payload browser sample_token = Some sample_payload
   \<and> structure_ok sample_payload
   \<and> field sample_payload ''exp'' = JNum (Fin 1700000000)
   \<and> (1700000000 :: rat) \<le> of_int (1700000000000 div 1000)
   \<and> validateToken browser 1700000000000 sample_token =
       \<lparr>valid = True, data = Some sample_payload, error = None\<rparr>"
  using sample_token_decoded sample_payload_ok
  by (simp add: validateToken_decoded js_lt_def)

text \<open>
  Claim C10, as amended. The structure test comes before the expiry test and asks for more
  than the declared claims: a token with three segments and a decodable payload that fails
  the test (the \<^verbatim>\<open>type\<close> is not exactly \<^verbatim>\<open>emailChange\<close>, or one of \<^verbatim>\<open>email\<close>,
  \<^verbatim>\<open>newEmail\<close>, \<^verbatim>\<open>exp\<close> is missing or falsy, so also \<^verbatim>\<open>exp\<close> equal to 0) is rejected
  without claims whatever the time is, hence never as expired. The rejection is
  \<^verbatim>\<open>Invalid token structure\<close> for every payload but \<^verbatim>\<open>null\<close>, on which reading a field
  throws and the rejection is \<^verbatim>\<open>Token validation failed\<close>.
\<close>

theorem validateToken_structure_first:
  assumes "length (split_str CHR ''.'' token) = 3"
      and "decode_payload P token = Some payload"
      and "\<not> structure_ok payload"
  shows "validateToken P date_now token =
           \<lparr>valid = False, data = None,
            error = Some (if nullish payload then ''Token validation failed''
                          else ''Invalid token structure'')\<rparr>"
  using assms by (simp add: validateToken_decoded)

theorem validateToken_structure_first_witness:
  "length (split_str CHR ''.'' short_token) = 3
   \<and> decode_payload browser short_token = Some sample_payload_short
   \<and> \<not> structure_ok sample_payload_short
   \<and> field sample_payload_short ''newEmail'' = JUndefined
   \<and> field sample_payload_short ''exp'' = JNum (Fin 1)
   \<and> validateToken browser 1700000000000 short_token =
       \<lparr>valid = False, data = None, error = Some ''Invalid token structure''\<rparr>"
  using validateToken_structure_first [OF short_token_decoded sample_payload_short_bad(1),
          of 1700000000000]
        short_token_decoded sample_payload_short_bad
  by simp

text \<open>
  The claim as stated (every such token reports the structure failure) fails on the token
  whose middle segment is the base64 of \<^verbatim>\<open>null\<close>: the payload is decodable JSON, it does
  not pass the structure test, and the result is the failure of the \<^verbatim>\<open>catch\<close> block.
\<close>

theorem validateToken_null_payload_counterexample:
  "length (split_str CHR ''.'' ''h.bnVsbA==.s'') = 3
   \<and> decode_payload browser ''h.bnVsbA==.s'' = Some JNull
   \<and> \<not> structure_ok JNull
   \<and> validateToken browser 1700000000000 ''h.bnVsbA==.s'' =
       \<lparr>valid = False, data = None, error = Some ''Token validation failed''\<rparr>
   \<and> validateToken browser 1700000000000 ''h.bnVsbA==.s'' \<noteq>
       \<lparr>valid = False, data = None, error = Some ''Invalid token structure''\<rparr>"
  using null_token_decoded
  by (simp add: validateToken_decoded nullish_def structure_ok_def field_def)

section \<open>Challenge-Response Controller: verifying and resending the one-time code\<close>

text \<open>
  Claim C6. Submitting a code while no challenge id is held makes no request and no
  navigation: the handler only sets the error message \<^verbatim>\<open>Authentication error. Please try
  again.\<close> and returns.
\<close>

theorem onOtpSubmit_without_challenge:
  assumes "l_otpId s = None"
  shows "onOtpSubmit B otp s =
           (s\<lparr>l_error := Some ''Authentication error. Please try again.''\<rparr>, [])"
  using assms by (simp add: onOtpSubmit_def falsy_str_def)

theorem onOtpSubmit_without_challenge_witness:
  "l_otpId login_initial = None
   \<and> onOtpSubmit sample_backend ''123456'' login_initial =
       (login_initial\<lparr>l_error := Some ''Authentication error. Please try again.''\<rparr>, [])"
  using onOtpSubmit_without_challenge [of login_initial sample_backend "''123456''"]
  by (simp add: login_initial_def)

text \<open>
  Claim C7. When the backend rejects the submitted code (with a response error or with any
  other exception), the form stays on the one-time-code step with the same challenge id:
  only the error message is set (the message of the response, or a fixed text for another
  exception) and the busy flag is cleared, so a second submission sends the new code with
  the same challenge id.
\<close>

theorem onOtpSubmit_failure:
  assumes "challenge_issued s" and "l_otpId s = Some held" and "authWithOTP B held otp = Some e"
  shows "fst (onOtpSubmit B otp s) = s\<lparr>l_isLoadingOtp := False, l_error := Some (otp_catch e)\<rparr>
         \<and> snd (onOtpSubmit B otp s) = [AuthWithOTP held otp]
         \<and> challenge_issued (fst (onOtpSubmit B otp s))
         \<and> l_otpId (fst (onOtpSubmit B otp s)) = Some held
         \<and> \<not> l_isLoadingOtp (fst (onOtpSubmit B otp s))
         \<and> hd (snd (onOtpSubmit B otp' (fst (onOtpSubmit B otp s)))) = AuthWithOTP held otp'"
proof -
  have nf: "\<not> falsy_str (l_otpId s)" using assms(1) by (simp add: challenge_issued_def)
  have st: "fst (onOtpSubmit B otp s) = s\<lparr>l_isLoadingOtp := False, l_error := Some (otp_catch e)\<rparr>"
    using nf assms(2,3) by (cases e) (simp_all add: onOtpSubmit_def otp_catch_def)
  have sn: "snd (onOtpSubmit B otp s) = [AuthWithOTP held otp]"
    using nf assms(2,3) by (cases e) (simp_all add: onOtpSubmit_def)
  have again: "hd (snd (onOtpSubmit B otp' (s\<lparr>l_isLoadingOtp := False, l_error := Some (otp_catch e)\<rparr>))) = AuthWithOTP held otp'"
    using nf assms(2)
    by (simp add: onOtpSubmit_def Let_def split: option.splits thrown.splits)
  show ?thesis
    using st sn again assms(1,2) by (simp add: challenge_issued_def)
qed

theorem onOtpSubmit_failure_witness:
  "challenge_issued issued \<and> l_otpId issued = Some ''otp_1''
   \<and> authWithOTP sample_backend ''otp_1'' ''000000'' = Some invalid_code
   \<and> fst (onOtpSubmit sample_backend ''000000'' issued) = issued\<lparr>l_error := Some ''Failed to authenticate.''\<rparr>
   \<and> snd (onOtpSubmit sample_backend ''123456'' (fst (onOtpSubmit sample_backend ''000000'' issued)))
       = [AuthWithOTP ''otp_1'' ''123456'', RouterPush ''/dashboard'']"
proof -
  have a: "challenge_issued issued" by (simp add: challenge_issued_def issued_def falsy_str_def)
  have b: "l_otpId issued = Some ''otp_1''" by (simp add: issued_def)
  have c: "authWithOTP sample_backend ''otp_1'' ''000000'' = Some invalid_code"
    by (simp add: sample_backend_def)
  have d: "otp_catch invalid_code = ''Failed to authenticate.''"
    by (simp add: otp_catch_def invalid_code_def)
  have e: "issued\<lparr>l_isLoadingOtp := False, l_error := Some ''Failed to authenticate.''\<rparr> = issued\<lparr>l_error := Some ''Failed to authenticate.''\<rparr>"
    by (simp add: issued_def)
  from onOtpSubmit_failure [OF a b c]
  have f: "fst (onOtpSubmit sample_backend ''000000'' issued) = issued\<lparr>l_error := Some ''Failed to authenticate.''\<rparr>"
    by (simp only: d e)
  have g: "snd (onOtpSubmit sample_backend ''123456'' (issued\<lparr>l_error := Some ''Failed to authenticate.''\<rparr>))
       = [AuthWithOTP ''otp_1'' ''123456'', RouterPush ''/dashboard'']"
    by (simp add: onOtpSubmit_def issued_def falsy_str_def sample_backend_def)
  show ?thesis using a b c f g by simp
qed

text \<open>
  Claim C1, as amended. A resend does not discard the held challenge id before it asks for
  a new one: the id is still held while the request is outstanding. When the request
  succeeds, the held id is replaced by the id that the backend returned, and a later
  verification is submitted with that new id (if it is not empty). When the request fails,
  the held id is left as it was, and a later verification is submitted with the id held
  before the resend.
\<close>

theorem handleResendOtp_held_id:
  assumes "l_userEmail s \<noteq> []"
  shows "l_otpId (handleResendOtp_pending s) = l_otpId s
         \<and> l_otpId (fst (handleResendOtp B s)) =
             (case requestOTP B (l_userEmail s) of Inr newId \<Rightarrow> Some newId | Inl e \<Rightarrow> l_otpId s)
         \<and> snd (handleResendOtp B s) = [RequestOTP (l_userEmail s)]
         \<and> (\<forall>newId. requestOTP B (l_userEmail s) = Inr newId \<and> newId \<noteq> [] \<longrightarrow>
               take 1 (snd (onOtpSubmit B' otp (fst (handleResendOtp B s))))
                 = [AuthWithOTP newId otp])
         \<and> (\<forall>e held. requestOTP B (l_userEmail s) = Inl e \<and> l_otpId s = Some held \<and> held \<noteq> [] \<longrightarrow>
               take 1 (snd (onOtpSubmit B' otp (fst (handleResendOtp B s))))
                 = [AuthWithOTP held otp])"
proof -
  have held: "l_otpId (fst (handleResendOtp B s)) =
             (case requestOTP B (l_userEmail s) of Inr newId \<Rightarrow> Some newId | Inl e \<Rightarrow> l_otpId s)"
    using assms
    by (simp add: handleResendOtp_def handleResendOtp_pending_def handleResendOtp_settled_def
             split: sum.splits thrown.splits)
  have verify: "take 1 (snd (onOtpSubmit B' otp t)) = [AuthWithOTP i otp]"
    if "l_otpId t = Some i" and "i \<noteq> []" for t i
    using that
    by (simp add: onOtpSubmit_def falsy_str_def Let_def split: option.splits thrown.splits)
  show ?thesis
    using assms held verify
    by (auto simp: handleResendOtp_def handleResendOtp_pending_def)
qed

theorem handleResendOtp_held_id_witness:
  "l_userEmail issued \<noteq> []
   \<and> l_otpId (handleResendOtp_pending issued) = Some ''otp_1''
   \<and> requestOTP sample_backend (l_userEmail issued) = Inl rate_limited
   \<and> l_otpId (fst (handleResendOtp sample_backend issued)) = Some ''otp_1''
   \<and> take 1 (snd (onOtpSubmit sample_backend ''123456'' (fst (handleResendOtp sample_backend issued))))
       = [AuthWithOTP ''otp_1'' ''123456'']
   \<and> requestOTP (sample_backend\<lparr>requestOTP := (\<lambda>email. Inr ''otp_2'')\<rparr>) (l_userEmail issued)
       = Inr ''otp_2''
   \<and> l_otpId (fst (handleResendOtp (sample_backend\<lparr>requestOTP := (\<lambda>email. Inr ''otp_2'')\<rparr>) issued))
       = Some ''otp_2''
   \<and> take 1 (snd (onOtpSubmit sample_backend ''123456''
        (fst (handleResendOtp (sample_backend\<lparr>requestOTP := (\<lambda>email. Inr ''otp_2'')\<rparr>) issued))))
       = [AuthWithOTP ''otp_2'' ''123456'']"
proof -
  have a: "l_userEmail issued \<noteq> []" by (simp add: issued_def)
  have b: "l_otpId issued = Some ''otp_1''" by (simp add: issued_def)
  have c: "requestOTP sample_backend (l_userEmail issued) = Inl rate_limited"
    by (simp add: sample_backend_def)
  have d: "requestOTP (sample_backend\<lparr>requestOTP := (\<lambda>email. Inr ''otp_2'')\<rparr>) (l_userEmail issued)
       = Inr ''otp_2''" by simp
  show ?thesis
    using handleResendOtp_held_id [OF a, of sample_backend sample_backend "''123456''"]
          handleResendOtp_held_id [OF a, of "sample_backend\<lparr>requestOTP := (\<lambda>email. Inr ''otp_2'')\<rparr>"
            sample_backend "''123456''"]
          a b c d
    by simp
qed

text \<open>
  The claim as stated (after a resend, successful or not, the held id is never the one held
  before, and a code for the old challenge cannot be verified against it) fails when the
  request for a new code is rejected: the form still holds \<^verbatim>\<open>otp_1\<close>, and submitting the
  code of that challenge is sent with \<^verbatim>\<open>otp_1\<close> and logs the user in.
\<close>

theorem handleResendOtp_counterexample:
  "challenge_issued issued
   \<and> l_otpId issued = Some ''otp_1''
   \<and> requestOTP sample_backend (l_userEmail issued) = Inl rate_limited
   \<and> l_otpId (fst (handleResendOtp sample_backend issued)) = Some ''otp_1''
   \<and> snd (onOtpSubmit sample_backend ''123456'' (fst (handleResendOtp sample_backend issued)))
       = [AuthWithOTP ''otp_1'' ''123456'', RouterPush ''/dashboard'']"
  by (simp add: challenge_issued_def issued_def falsy_str_def handleResendOtp_def
        handleResendOtp_pending_def handleResendOtp_settled_def sample_backend_def rate_limited_def
        onOtpSubmit_def)

section \<open>Failures of the token-confirmation pages\<close>










section \<open>Verification Resend Throttle\<close>

text \<open>Writing a timestamp and reading it back: \<open>parseInt (toString i) = Some i\<close>.\<close>

lemma digit_of_digit_char: "d < 10 \<Longrightarrow> digit_of (digit_char d) = Some d"
proof -
  assume "d < 10"
  then have "d \<in> {0,1,2,3,4,5,6,7,8,9}" by auto
  then show ?thesis
    by (auto simp: digit_of_def digit_char_def)
qed

lemma is_digit_digit_char: "d < 10 \<Longrightarrow> is_digit 10 (digit_char d)"
  by (simp add: is_digit_def digit_of_digit_char)

lemma digit_val_digit_char: "d < 10 \<Longrightarrow> digit_val (digit_char d) = int d"
  by (simp add: digit_val_def digit_of_digit_char)

lemma digit_char_plain: "d < 10 \<Longrightarrow> \<not> is_space (digit_char d) \<and> digit_char d \<noteq> CHR ''-'' \<and> digit_char d \<noteq> CHR ''+'' \<and> digit_char d \<noteq> CHR ''x'' \<and> digit_char d \<noteq> CHR ''X''"
proof -
  assume "d < 10"
  then have "d \<in> {0,1,2,3,4,5,6,7,8,9}" by auto
  then show ?thesis
    by (auto simp: is_space_def digit_char_def)
qed


lemma digits_small: "n < 10 \<Longrightarrow> digits n = [digit_char n]"
  by (subst digits.simps) simp

lemma digits_large: "\<not> n < 10 \<Longrightarrow> digits n = digits (n div 10) @ [digit_char (n mod 10)]"
  by (subst digits.simps) simp

lemma digits_dec: "\<forall>c \<in> set (digits n). dec c"
proof (induction n rule: digits.induct)
  case (1 n)
  show ?case
  proof (cases "n < 10")
    case True
    then show ?thesis by (auto simp: dec_def digits_small)
  next
    case False
    have "dec (digit_char (n mod 10))"
      unfolding dec_def by (rule exI[of _ "n mod 10"]) simp
    then show ?thesis using 1 False by (simp add: digits_large)
  qed
qed

lemma digits_nonempty: "digits n \<noteq> []"
  by (cases "n < 10") (simp_all add: digits_small digits_large)

lemma digits_value: "foldl (\<lambda>a c. a * 10 + digit_val c) 0 (digits n) = int n"
proof (induction n rule: digits.induct)
  case (1 n)
  show ?case
  proof (cases "n < 10")
    case True
    then show ?thesis by (simp add: digit_val_digit_char digits_small)
  next
    case False
    have "int (n div 10) * 10 + int (n mod 10) = int n"
      by (simp add: zdiv_int zmod_int)
    then show ?thesis using 1 False by (simp add: digit_val_digit_char digits_large)
  qed
qed

lemma dec_facts:
  assumes "dec c"
  shows "is_digit 10 c" "\<not> is_space c" "c \<noteq> CHR ''-''" "c \<noteq> CHR ''+''" "c \<noteq> CHR ''x''" "c \<noteq> CHR ''X''"
  using assms digit_char_plain is_digit_digit_char by (auto simp: dec_def)

lemma parse_digits:
  assumes "S = digits n"
  shows "dropWhile is_space S = S" "take 1 S \<noteq> ''-''" "take 1 S \<noteq> ''+''"
        "take 2 S \<noteq> ''0x''" "take 2 S \<noteq> ''0X''" "takeWhile (is_digit 10) S = S"
proof -
  have ne: "S \<noteq> []" and all: "\<forall>c \<in> set S. dec c"
    using assms digits_nonempty digits_dec by auto
  obtain c cs where S: "S = c # cs" using ne by (cases S) auto
  have c: "dec c" using all S by simp
  show "dropWhile is_space S = S" using S dec_facts(2)[OF c] by simp
  show "take 1 S \<noteq> ''-''" using S dec_facts(3)[OF c] by simp
  show "take 1 S \<noteq> ''+''" using S dec_facts(4)[OF c] by simp
  show "takeWhile (is_digit 10) S = S"
    using all dec_facts(1) by (simp add: takeWhile_eq_all_conv)
  show "take 2 S \<noteq> ''0x''"
  proof (cases cs)
    case Nil then show ?thesis using S by simp
  next
    case (Cons d ds)
    then have "dec d" using all S by simp
    then show ?thesis using S Cons dec_facts(5) by auto
  qed
  show "take 2 S \<noteq> ''0X''"
  proof (cases cs)
    case Nil then show ?thesis using S by simp
  next
    case (Cons d ds)
    then have "dec d" using all S by simp
    then show ?thesis using S Cons dec_facts(6) by auto
  qed
qed

lemma parseInt_plain:
  assumes "dropWhile is_space S = S" "take 1 S \<noteq> ''-''" "take 1 S \<noteq> ''+''"
      "take 2 S \<noteq> ''0x''" "take 2 S \<noteq> ''0X''" "takeWhile (is_digit 10) S = S" "S \<noteq> []"
  shows "parseInt S = Some (foldl (\<lambda>a c. a * 10 + digit_val c) 0 S)"
proof -
  have "parseInt S =
          (let Z = takeWhile (is_digit 10) S
           in if Z = [] then None else Some (1 * foldl (\<lambda>a c. a * int 10 + digit_val c) 0 Z))"
    unfolding parseInt_def Let_def assms(1) using assms(2-5) by simp
  also have "\<dots> = Some (foldl (\<lambda>a c. a * 10 + digit_val c) 0 S)"
    unfolding Let_def assms(6) using assms(7) by simp
  finally show ?thesis .
qed

lemma parseInt_minus:
  assumes "dropWhile is_space S = S" "take 1 S \<noteq> ''-''" "take 1 S \<noteq> ''+''"
      "take 2 S \<noteq> ''0x''" "take 2 S \<noteq> ''0X''" "takeWhile (is_digit 10) S = S" "S \<noteq> []"
  shows "parseInt (CHR ''-'' # S) = Some (- foldl (\<lambda>a c. a * 10 + digit_val c) 0 S)"
proof -
  have d: "dropWhile is_space (CHR ''-'' # S) = CHR ''-'' # S"
    by (simp add: is_space_def)
  have "parseInt (CHR ''-'' # S) =
          (let Z = takeWhile (is_digit 10) S
           in if Z = [] then None else Some (- 1 * foldl (\<lambda>a c. a * int 10 + digit_val c) 0 Z))"
    unfolding parseInt_def Let_def d using assms(4,5) by simp
  also have "\<dots> = Some (- foldl (\<lambda>a c. a * 10 + digit_val c) 0 S)"
    unfolding Let_def assms(6) using assms(7) by simp
  finally show ?thesis .
qed

lemma parseInt_digits: "parseInt (digits n) = Some (int n)"
  using parseInt_plain[OF parse_digits[OF refl] digits_nonempty, of n]
  by (simp only: digits_value)

lemma parseInt_minus_digits: "parseInt (CHR ''-'' # digits n) = Some (- int n)"
  using parseInt_minus[OF parse_digits[OF refl] digits_nonempty, of n]
  by (simp only: digits_value)

lemma parseInt_toString: "parseInt (toString i) = Some i"
  by (simp add: toString_def parseInt_digits parseInt_minus_digits)

lemma toString_nonempty: "toString i \<noteq> []"
  by (simp add: toString_def digits_nonempty)

lemma tick_funpow:
  assumes "0 \<le> v_countdown s"
  shows "(tick ^^ k) s = s\<lparr>v_countdown := max 0 (v_countdown s - int k)\<rparr>"
proof (induction k)
  case 0
  then show ?case using assms by simp
next
  case (Suc k)
  then show ?case by (simp add: tick_def max_def)
qed

lemma verify_mount_recorded:
  assumes "localStorage ''lastVerificationEmailSent'' = Some (toString T)"
  shows "verify_mount date_now localStorage s =
           (if RESEND_COOLDOWN - (date_now - T) div 1000 > 0
            then s\<lparr>v_initialEmailSent := True,
                   v_countdown := RESEND_COOLDOWN - (date_now - T) div 1000\<rparr>
            else s\<lparr>v_initialEmailSent := True\<rparr>)"
  using assms by (simp add: verify_mount_def toString_nonempty parseInt_toString Let_def)

lemma handleResendVerification_sent:
  assumes "fst (resendVerification B user) = None"
  shows "v_countdown (fst (fst (handleResendVerification B user T (s, ls)))) = RESEND_COOLDOWN"
    and "v_isResending (fst (fst (handleResendVerification B user T (s, ls)))) = False"
    and "v_isRefreshing (fst (fst (handleResendVerification B user T (s, ls)))) = v_isRefreshing s"
    and "snd (fst (handleResendVerification B user T (s, ls))) ''lastVerificationEmailSent''
           = Some (toString T)"
  using assms by (simp_all add: handleResendVerification_def Let_def)

text \<open>
  The manual resend at the time \<open>T\<close> sets the countdown to 30 and stores \<open>T\<close>. While the
  page stays open, the countdown is 20 after 10 firings of the timer and the button is
  disabled; after 30 or more firings it is 0 and the button is enabled. A page that is
  loaded afresh 10 seconds after \<open>T\<close> starts its countdown at 20 from the stored time; a
  page loaded 30 seconds after \<open>T\<close> or later has none.
\<close>

lemma manual_resend_cooldown:
  assumes "fst (resendVerification B user) = None" and "\<not> v_isRefreshing s"
      and "page = fst (fst (handleResendVerification B user T (s, ls)))"
      and "store = snd (fst (handleResendVerification B user T (s, ls)))"
      and "30 \<le> k" and "30000 \<le> d"
  shows "v_countdown page = 30
         \<and> store ''lastVerificationEmailSent'' = Some (toString T)
         \<and> v_countdown ((tick ^^ 10) page) = 20 \<and> resend_disabled ((tick ^^ 10) page)
         \<and> v_countdown ((tick ^^ k) page) = 0 \<and> \<not> resend_disabled ((tick ^^ k) page)
         \<and> v_countdown (verify_mount (T + 10000) store verify_initial) = 20
         \<and> resend_disabled (verify_mount (T + 10000) store verify_initial)
         \<and> v_countdown (verify_mount (T + d) store verify_initial) = 0
         \<and> \<not> resend_disabled (verify_mount (T + d) store verify_initial)"
proof -
  note sent = handleResendVerification_sent [OF assms(1), of T s ls, folded assms(3,4)]
  have c: "v_countdown page = 30" using sent(1) by (simp add: RESEND_COOLDOWN_def)
  have st: "store ''lastVerificationEmailSent'' = Some (toString T)" by (rule sent(4))
  have t: "(tick ^^ n) page = page\<lparr>v_countdown := max 0 (30 - int n)\<rparr>" for n
    using tick_funpow [of page n] c by simp
  have flags: "\<not> v_isResending page" "\<not> v_isRefreshing page"
    using sent(2,3) assms(2) by simp_all
  have m10: "verify_mount (T + 10000) store verify_initial
               = verify_initial\<lparr>v_initialEmailSent := True, v_countdown := 20\<rparr>"
    by (simp add: verify_mount_recorded [where localStorage = store and T = T, OF st] RESEND_COOLDOWN_def)
  have "(T + d - T) div 1000 \<ge> 30" using assms(6) by simp
  then have md: "verify_mount (T + d) store verify_initial
               = verify_initial\<lparr>v_initialEmailSent := True\<rparr>"
    by (simp add: verify_mount_recorded [where localStorage = store and T = T, OF st] RESEND_COOLDOWN_def)
  have vi: "\<not> v_isResending verify_initial" "\<not> v_isRefreshing verify_initial"
      "v_countdown verify_initial = 0"
    by (simp_all add: verify_initial_def)
  show ?thesis
    using c st flags assms(5)
    by (simp add: t m10 md resend_disabled_def vi)
qed

lemma tick_idle: "v_countdown s = 0 \<Longrightarrow> (tick ^^ k) s = s"
  by (induction k) (simp_all add: tick_def)

text \<open>
  Claim C3 asks that within 30 seconds of a recorded send the remaining time is what is left
  of the window and that no send is possible. The manual resend and a fresh load of the
  page do that (see above); the automatic first send of the page does not. It records the
  time \<open>T\<close> in the storage, but it never starts the countdown: the countdown stays 0
  however often the timer would fire, the resend button is enabled, and a click inside the
  window sends a second email, although the stored time gives 20 seconds to wait to a page
  that is loaded 10 seconds after \<open>T\<close>.
\<close>

theorem auto_send_no_cooldown:
  assumes "user = Some email" and "fst (resendVerification B user) = None" and "\<not> isLoading"
      and "\<not> v_initialEmailSent s" and "v_countdown s = 0"
      and "\<not> v_isResending s" and "\<not> v_isRefreshing s"
      and "page = fst (fst (sendInitialVerificationEmail B user isLoading T (s, ls)))"
      and "store = snd (fst (sendInitialVerificationEmail B user isLoading T (s, ls)))"
  shows "snd (sendInitialVerificationEmail B user isLoading T (s, ls)) = [RequestVerification email]
         \<and> store ''lastVerificationEmailSent'' = Some (toString T)
         \<and> v_countdown ((tick ^^ k) page) = 0
         \<and> \<not> resend_disabled ((tick ^^ k) page)
         \<and> snd (handleResendVerification B user T' ((tick ^^ k) page, store))
             = [RequestVerification email]
         \<and> v_countdown (verify_mount (T + 10000) store verify_initial) = 20"
proof -
  have p: "page = s\<lparr>v_initialEmailSent := True\<rparr>"
    and st: "store ''lastVerificationEmailSent'' = Some (toString T)"
    and calls: "snd (sendInitialVerificationEmail B user isLoading T (s, ls)) = [RequestVerification email]"
    using assms(1-4)
    by (simp_all add: assms(8,9) sendInitialVerificationEmail_def resendVerification_def)
  have c: "v_countdown page = 0" using p assms(5) by simp
  have idle: "(tick ^^ k) page = page" using c by (rule tick_idle)
  have en: "\<not> resend_disabled page" using p assms(5-7) by (simp add: resend_disabled_def)
  have again: "snd (handleResendVerification B user T' (page, store)) = [RequestVerification email]"
    using assms(1,2)
    by (simp add: handleResendVerification_def resendVerification_def Let_def split: option.splits)
  have m: "v_countdown (verify_mount (T + 10000) store verify_initial) = 20"
    by (simp add: verify_mount_recorded [where localStorage = store and T = T, OF st] RESEND_COOLDOWN_def)
  show ?thesis using calls st c idle en again m by simp
qed

theorem auto_send_no_cooldown_witness:
  "fst (resendVerification sample_backend (Some ''user@example.com'')) = None
   \<and> verify_mount 1700000000000 Map.empty verify_initial = verify_initial
   \<and> snd after_auto_send ''lastVerificationEmailSent'' = Some ''1700000000000''
   \<and> v_countdown ((tick ^^ 10) (fst after_auto_send)) = 0
   \<and> \<not> resend_disabled ((tick ^^ 10) (fst after_auto_send))
   \<and> snd (handleResendVerification sample_backend (Some ''user@example.com'') 1700000010000
            ((tick ^^ 10) (fst after_auto_send), snd after_auto_send))
       = [RequestVerification ''user@example.com'']
   \<and> v_countdown (verify_mount 1700000010000 (snd after_auto_send) verify_initial) = 20"
proof -
  have a: "fst (resendVerification sample_backend (Some ''user@example.com'')) = None"
    by (simp add: resendVerification_def sample_backend_def)
  have mnt: "verify_mount 1700000000000 Map.empty verify_initial = verify_initial"
    by (simp add: verify_mount_def verify_initial_def)
  have vi: "\<not> v_initialEmailSent verify_initial" "v_countdown verify_initial = 0"
      "\<not> v_isResending verify_initial" "\<not> v_isRefreshing verify_initial"
    by (simp_all add: verify_initial_def)
  have l: "\<not> False" by simp
  have p: "fst after_auto_send =
             fst (fst (sendInitialVerificationEmail sample_backend (Some ''user@example.com'') False
                         1700000000000 (verify_initial, Map.empty)))"
    by (simp add: after_auto_send_def mnt)
  have q: "snd after_auto_send =
             snd (fst (sendInitialVerificationEmail sample_backend (Some ''user@example.com'') False
                         1700000000000 (verify_initial, Map.empty)))"
    by (simp add: after_auto_send_def mnt)
  have t: "toString 1700000000000 = ''1700000000000''"
    by (simp add: toString_def digits_large digits_small digit_char_def)
  show ?thesis
    using auto_send_no_cooldown [OF refl a l vi p q, of 10 1700000010000] a mnt t
    by simp
qed

end
